theory Spec2Isabelle
  imports Main
begin

section \<open>Data model (libaiac/config.go)\<close>

text \<open>
  Go strings are byte sequences: \<open>string\<close> (a \<open>char list\<close>) models them byte for byte.
  A Go map is a finite partial function; the nil map and the empty map both read as
  \<open>Map.empty\<close> (the code under study never writes to a map outside a \<open>range\<close> over that
  same map, so the one operation that tells them apart, a write to nil, cannot occur).
\<close>

type_synonym BackendType = string

record BackendConfig =
  Type :: BackendType
  AWSProfile :: string
  AWSRegion :: string
  APIKey :: string
  APIVersion :: string
  URL :: string
  DefaultModel :: string
  ExtraHeaders :: "string \<rightharpoonup> string"

record Config =
  Backends :: "string \<rightharpoonup> BackendConfig"
  DefaultBackend :: string

text \<open>The zero values of the two structs: what \<open>conf\<close>, a named result, holds on entry
  to \<open>LoadConfig\<close>.\<close>

definition BackendConfig_zero :: BackendConfig where
  "BackendConfig_zero =
     \<lparr>Type = [], AWSProfile = [], AWSRegion = [], APIKey = [], APIVersion = [],
      URL = [], DefaultModel = [], ExtraHeaders = Map.empty\<rparr>"

definition Config_zero :: Config where
  "Config_zero = \<lparr>Backends = Map.empty, DefaultBackend = []\<rparr>"

section \<open>Environment expansion (os.ExpandEnv, called by replaceEnvVar)\<close>

text \<open>
  \<open>replaceEnvVar\<close> is one call of \<open>os.ExpandEnv\<close>, that is \<open>os.Expand(s, os.Getenv)\<close>:
  Go's standard library, which the repository imports and does not contain. The
  specification gives its contract (section 4.3): a reference is \<open>$NAME\<close> or \<open>${NAME}\<close>,
  every reference in a string is replaced, an undefined name expands to the empty
  string, a string with no reference is returned unchanged. Where that contract is
  silent (which bytes make a name, what happens to a malformed reference) the
  definitions follow the standard library's \<open>os/env.go\<close>, function by function and
  under its names.
\<close>

text \<open>Modelled from the spec: \<open>isShellSpecialVar\<close> of the standard library (absent from
  the sources): the one-byte names of the shell's special variables.\<close>

definition isShellSpecialVar :: "char \<Rightarrow> bool" where
  "isShellSpecialVar c = (c \<in> set ''*#$@!?-0123456789'')"

text \<open>Modelled from the spec: \<open>isAlphaNum\<close> of the standard library (absent from the
  sources): the bytes of a \<open>NAME\<close>, an ASCII letter, a digit or the underscore.\<close>

definition isAlphaNum :: "char \<Rightarrow> bool" where
  "isAlphaNum c =
     (c = CHR ''_''
      \<or> (of_char CHR ''0'' \<le> (of_char c :: nat) \<and> (of_char c :: nat) \<le> of_char CHR ''9'')
      \<or> (of_char CHR ''a'' \<le> (of_char c :: nat) \<and> (of_char c :: nat) \<le> of_char CHR ''z'')
      \<or> (of_char CHR ''A'' \<le> (of_char c :: nat) \<and> (of_char c :: nat) \<le> of_char CHR ''Z''))"

text \<open>
  Modelled from the spec: \<open>getShellName\<close> of the standard library (absent from the
  sources): the name that begins the text after a \<open>$\<close>, and the number of bytes it
  takes up.

  \<open>getShellName s\<close> reads \<open>s[0]\<close> at once, and \<open>Expand\<close> calls it only under the guard
  \<open>j+1 < len(s)\<close>, on a non-empty string. The model takes \<open>s[0]\<close> and \<open>s[1:]\<close> as two
  arguments, so the empty string is excluded by the type.

  In the brace case the scan \<open>for i := 1; i < len(s); i++\<close> stops at the first \<open>}\<close>:
  \<open>n\<close> below is the number of bytes of \<open>s[1:]\<close> before it, so \<open>i = n + 1\<close>. An empty
  \<open>${}\<close> consumes two bytes and an unclosed \<open>${\<close> one, both with the empty name.
\<close>

definition getShellName :: "char \<Rightarrow> string \<Rightarrow> string \<times> nat" where
  "getShellName c cs =
     (if c = CHR ''{'' then
        (if length (c # cs) > 2 \<and> isShellSpecialVar (cs ! 0) \<and> cs ! 1 = CHR ''}''
         then ([cs ! 0], 3)
         else
           (let n = length (takeWhile (\<lambda>x. x \<noteq> CHR ''}'') cs) in
            if n < length cs
            then (if n = 0 then ([], 2) else (take n cs, n + 2))
            else ([], 1)))
      else if isShellSpecialVar c then ([c], 1)
      else (let name = takeWhile isAlphaNum (c # cs) in (name, length name)))"

text \<open>Modelled from the spec: \<open>os.Getenv\<close> (absent from the sources), the EnvResolver of
  section 2: the value of a variable in the process environment, the empty string when
  the variable is undefined.\<close>

definition Getenv :: "(string \<rightharpoonup> string) \<Rightarrow> string \<Rightarrow> string" where
  "Getenv env key = (case env key of None \<Rightarrow> [] | Some v \<Rightarrow> v)"

text \<open>
  Modelled from the spec: \<open>os.Expand\<close> (absent from the sources), the Substitutor of
  section 4.3.

  The library walks the string with an index \<open>j\<close>, copying the bytes since the last
  reference (\<open>s[i:j]\<close>) into \<open>buf\<close> whenever it meets a \<open>$\<close> that is not the last byte,
  and returns \<open>buf + s[i:]\<close> (or \<open>s\<close> itself when no such \<open>$\<close> was met, which is the
  same bytes). The model produces the same output front to back: the argument is
  \<open>s[j:]\<close>, a byte that is not such a \<open>$\<close> is emitted as it is, and after a reference
  the walk resumes \<open>w\<close> bytes further (\<open>j += w\<close>, then the loop's \<open>j++\<close>). A \<open>$\<close> followed
  by no name and no consumed byte stays; malformed syntax (no name, bytes consumed) is
  dropped.
\<close>

fun Expand :: "(string \<Rightarrow> string) \<Rightarrow> string \<Rightarrow> string" where
  "Expand mapping [] = []"
| "Expand mapping [c] = [c]"
| "Expand mapping (c # d # ds) =
     (if c = CHR ''$'' then
        (let name = fst (getShellName d ds); w = snd (getShellName d ds) in
         (if name = [] \<and> w > 0 then []
          else if name = [] then [c]
          else mapping name) @ Expand mapping (drop w (d # ds)))
      else c # Expand mapping (d # ds))"

text \<open>Modelled from the spec: \<open>os.ExpandEnv\<close> (absent from the sources): \<open>Expand\<close> with
  the process environment as the mapping.\<close>

definition ExpandEnv :: "(string \<rightharpoonup> string) \<Rightarrow> string \<Rightarrow> string" where
  "ExpandEnv env s = Expand (Getenv env) s"

section \<open>The substitution pass (replaceEnvVar, replaceEnvVars)\<close>

definition replaceEnvVar :: "(string \<rightharpoonup> string) \<Rightarrow> string \<Rightarrow> string" where
  "replaceEnvVar env s = ExpandEnv env s"

text \<open>The body of the \<open>range\<close> loop, on the loop's copy \<open>backendConfig\<close> of the entry:
  six guarded assignments, in the source's order.\<close>

definition replaceEnvVars_body :: "(string \<rightharpoonup> string) \<Rightarrow> BackendConfig \<Rightarrow> BackendConfig" where
  "replaceEnvVars_body env b0 =
     (let b1 = (if APIKey b0 \<noteq> [] then b0\<lparr>APIKey := replaceEnvVar env (APIKey b0)\<rparr> else b0);
          b2 = (if AWSProfile b1 \<noteq> [] then b1\<lparr>AWSProfile := replaceEnvVar env (AWSProfile b1)\<rparr> else b1);
          b3 = (if AWSRegion b2 \<noteq> [] then b2\<lparr>AWSRegion := replaceEnvVar env (AWSRegion b2)\<rparr> else b2);
          b4 = (if URL b3 \<noteq> [] then b3\<lparr>URL := replaceEnvVar env (URL b3)\<rparr> else b3);
          b5 = (if DefaultModel b4 \<noteq> [] then b4\<lparr>DefaultModel := replaceEnvVar env (DefaultModel b4)\<rparr> else b4);
          b6 = (if APIVersion b5 \<noteq> [] then b5\<lparr>APIVersion := replaceEnvVar env (APIVersion b5)\<rparr> else b5)
      in b6)"

text \<open>
  \<open>for backendName, backendConfig := range conf.Backends\<close>: Go visits every key of the
  map once, in an order the language leaves unspecified. The order is the list
  \<open>order\<close>, chosen by the runtime; a run of the program corresponds to a list with
  \<open>distinct order\<close> and \<open>set order = dom (Backends conf)\<close>. Each iteration reads the
  entry, runs the body on the copy and stores the copy under the same key
  (\<open>conf.Backends[backendName] = backendConfig\<close>). \<open>range\<close> yields keys of the map
  only, so a name of the list that is no key is passed over.
\<close>

fun replaceEnvVars_loop ::
  "(string \<rightharpoonup> string) \<Rightarrow> string list \<Rightarrow> (string \<rightharpoonup> BackendConfig) \<Rightarrow> (string \<rightharpoonup> BackendConfig)" where
  "replaceEnvVars_loop env [] m = m"
| "replaceEnvVars_loop env (backendName # rest) m =
     (case m backendName of
        None \<Rightarrow> replaceEnvVars_loop env rest m
      | Some backendConfig \<Rightarrow>
          replaceEnvVars_loop env rest (m(backendName \<mapsto> replaceEnvVars_body env backendConfig)))"

definition replaceEnvVars :: "(string \<rightharpoonup> string) \<Rightarrow> string list \<Rightarrow> Config \<Rightarrow> Config" where
  "replaceEnvVars env order conf =
     conf\<lparr>Backends := replaceEnvVars_loop env order (Backends conf)\<rparr>"

section \<open>Loading (LoadConfig)\<close>

text \<open>
  An error value is either one produced by a collaborator (the base-directory library,
  the TOML decoder), kept opaque, or \<open>fmt.Errorf(format, err)\<close> with a \<open>%w\<close> verb: the
  format string and the wrapped error.
\<close>

datatype error = Foreign string | Errorf string error

text \<open>
  What \<open>LoadConfig\<close> takes from outside the package, as parameters:
  \<^item> \<open>xdg_ConfigFile\<close>: \<open>xdg.ConfigFile\<close>, returning a path and an error (nil is \<open>None\<close>);
  \<^item> \<open>toml_DecodeFile\<close>: \<open>toml.DecodeFile(path, &conf)\<close>, which writes through the
    pointer and returns an error: the model takes the struct and returns it updated
    (the returned metadata is discarded by the caller);
  \<^item> \<open>environ\<close>: the process environment read by \<open>os.Getenv\<close>;
  \<^item> \<open>range_order\<close>: the order in which the runtime's \<open>range\<close> visits the keys of a map.

  One more collaborator is part of the platform although the package never calls it:
  \<open>os_Stat\<close>, the file system's test for the existence of a path (\<open>os.Stat\<close>, nil when
  the path exists). It is there so that a theorem can say that a load does not depend
  on it.
\<close>

record platform =
  xdg_ConfigFile :: "string \<Rightarrow> string \<times> error option"
  toml_DecodeFile :: "string \<Rightarrow> Config \<Rightarrow> Config \<times> error option"
  environ :: "string \<rightharpoonup> string"
  range_order :: "(string \<rightharpoonup> BackendConfig) \<Rightarrow> string list"
  os_Stat :: "string \<Rightarrow> error option"

text \<open>The calls made to the file-system collaborators, in order, with their path
  argument.\<close>

datatype call = Call_ConfigFile string | Call_DecodeFile string | Call_Stat string

text \<open>Lines 82 to 90: decode the file at \<open>path\<close> into \<open>conf\<close>, wrap a failure, otherwise
  run the substitution pass. The Go function returns \<open>conf\<close> beside the error in every
  case, so the model returns the pair.\<close>

definition LoadConfig_decode ::
  "platform \<Rightarrow> string \<Rightarrow> Config \<Rightarrow> call list \<Rightarrow> (Config \<times> error option) \<times> call list" where
  "LoadConfig_decode pf path conf calls =
     (case toml_DecodeFile pf path conf of
        (conf', Some err) \<Rightarrow>
          ((conf', Some (Errorf ''failed loading configuration: %w'' err)),
           calls @ [Call_DecodeFile path])
      | (conf', None) \<Rightarrow>
          ((replaceEnvVars (environ pf) (range_order pf (Backends conf')) conf', None),
           calls @ [Call_DecodeFile path]))"

definition LoadConfig :: "platform \<Rightarrow> string \<Rightarrow> (Config \<times> error option) \<times> call list" where
  "LoadConfig pf path =
     (let conf = Config_zero in
      if path = [] then
        (case xdg_ConfigFile pf ''aiac/aiac.toml'' of
           (path', Some err) \<Rightarrow>
             ((conf, Some (Errorf ''failed getting default config path: %w'' err)),
              [Call_ConfigFile ''aiac/aiac.toml''])
         | (path', None) \<Rightarrow>
             LoadConfig_decode pf path' conf [Call_ConfigFile ''aiac/aiac.toml''])
      else LoadConfig_decode pf path conf [])"

text \<open>What the language promises of \<open>range\<close> over the map \<open>m\<close>: every key once.\<close>

definition valid_range_order :: "platform \<Rightarrow> (string \<rightharpoonup> BackendConfig) \<Rightarrow> bool" where
  "valid_range_order pf m = (distinct (range_order pf m) \<and> set (range_order pf m) = dom m)"

section \<open>The decoder's contract (toml.Decode into Config)\<close>

text \<open>
  The TOML decoder is a library outside the repository; the specification treats it as
  a black box with a contract (sections 1, 4.2 and 6): a key/value document is parsed
  into the typed struct, unknown keys are ignored, a value of the wrong type is an
  error. The repository's part is the struct definitions: the field types and the
  \<open>toml:"..."\<close> tags that name each field's key. The model below is that contract over a
  parsed document, on the tags and types of the source.
\<close>

text \<open>Modelled from the spec: the values of a parsed document (the decoder's input,
  absent from the sources): strings, integers, booleans, arrays and tables. Floats and
  date-times are left out; like an integer, they fit no field of the two structs.\<close>

datatype toml = TString string | TInteger int | TBoolean bool | TArray "toml list"
  | TTable "(string \<times> toml) list"

text \<open>The fields of \<open>BackendConfig\<close> and their struct tags (lines 37 to 68).\<close>

datatype BackendConfig_field = F_Type | F_AWSProfile | F_AWSRegion | F_APIKey | F_APIVersion
  | F_URL | F_DefaultModel | F_ExtraHeaders

fun toml_tag :: "BackendConfig_field \<Rightarrow> string" where
  "toml_tag F_Type = ''type''"
| "toml_tag F_AWSProfile = ''aws_profile''"
| "toml_tag F_AWSRegion = ''aws_region''"
| "toml_tag F_APIKey = ''api_key''"
| "toml_tag F_APIVersion = ''api_version''"
| "toml_tag F_URL = ''url''"
| "toml_tag F_DefaultModel = ''default_model''"
| "toml_tag F_ExtraHeaders = ''extra_headers''"

definition fields_of_BackendConfig :: "BackendConfig_field list" where
  "fields_of_BackendConfig =
     [F_Type, F_AWSProfile, F_AWSRegion, F_APIKey, F_APIVersion, F_URL, F_DefaultModel,
      F_ExtraHeaders]"

text \<open>Two structs hold the same value in field \<open>f\<close>.\<close>

fun same_field :: "BackendConfig_field \<Rightarrow> BackendConfig \<Rightarrow> BackendConfig \<Rightarrow> bool" where
  "same_field F_Type b b' = (Type b = Type b')"
| "same_field F_AWSProfile b b' = (AWSProfile b = AWSProfile b')"
| "same_field F_AWSRegion b b' = (AWSRegion b = AWSRegion b')"
| "same_field F_APIKey b b' = (APIKey b = APIKey b')"
| "same_field F_APIVersion b b' = (APIVersion b = APIVersion b')"
| "same_field F_URL b b' = (URL b = URL b')"
| "same_field F_DefaultModel b b' = (DefaultModel b = DefaultModel b')"
| "same_field F_ExtraHeaders b b' = (ExtraHeaders b = ExtraHeaders b')"

text \<open>Modelled from the spec: the decoder's error for a value whose type does not match
  the field (the decoder is absent from the sources).\<close>

definition type_mismatch :: error where
  "type_mismatch = Foreign ''type mismatch''"

text \<open>Modelled from the spec: decoding a table into a \<open>map[string]string\<close> (the decoder
  is absent from the sources): every value must be a string.\<close>

fun decode_headers ::
  "(string \<times> toml) list \<Rightarrow> (string \<rightharpoonup> string) \<Rightarrow> error + (string \<rightharpoonup> string)" where
  "decode_headers [] m = Inr m"
| "decode_headers ((k, TString s) # kvs) m = decode_headers kvs (m(k \<mapsto> s))"
| "decode_headers ((k, _) # kvs) m = Inl type_mismatch"

text \<open>Modelled from the spec: storing a document value into one field of a
  \<open>BackendConfig\<close> (the decoder is absent from the sources): a string into a string
  field, a table of strings into \<open>ExtraHeaders\<close>, anything else a type mismatch.\<close>

fun set_field :: "BackendConfig_field \<Rightarrow> toml \<Rightarrow> BackendConfig \<Rightarrow> error + BackendConfig" where
  "set_field F_Type (TString s) b = Inr (b\<lparr>Type := s\<rparr>)"
| "set_field F_AWSProfile (TString s) b = Inr (b\<lparr>AWSProfile := s\<rparr>)"
| "set_field F_AWSRegion (TString s) b = Inr (b\<lparr>AWSRegion := s\<rparr>)"
| "set_field F_APIKey (TString s) b = Inr (b\<lparr>APIKey := s\<rparr>)"
| "set_field F_APIVersion (TString s) b = Inr (b\<lparr>APIVersion := s\<rparr>)"
| "set_field F_URL (TString s) b = Inr (b\<lparr>URL := s\<rparr>)"
| "set_field F_DefaultModel (TString s) b = Inr (b\<lparr>DefaultModel := s\<rparr>)"
| "set_field F_ExtraHeaders (TTable kvs) b =
     (case decode_headers kvs (ExtraHeaders b) of
        Inl e \<Rightarrow> Inl e
      | Inr m \<Rightarrow> Inr (b\<lparr>ExtraHeaders := m\<rparr>))"
| "set_field _ _ b = Inl type_mismatch"

text \<open>Modelled from the spec: decoding one key of a backend's table (the decoder is
  absent from the sources): the field whose tag is the key is set, a key that is no
  field's tag is ignored.\<close>

definition decode_field :: "string \<Rightarrow> toml \<Rightarrow> BackendConfig \<Rightarrow> error + BackendConfig" where
  "decode_field key v b =
     (case find (\<lambda>f. toml_tag f = key) fields_of_BackendConfig of
        None \<Rightarrow> Inr b
      | Some f \<Rightarrow> set_field f v b)"

text \<open>Modelled from the spec: decoding a backend's table into a \<open>BackendConfig\<close> (the
  decoder is absent from the sources), key by key, stopping at the first error.\<close>

fun decode_BackendConfig ::
  "(string \<times> toml) list \<Rightarrow> BackendConfig \<Rightarrow> error + BackendConfig" where
  "decode_BackendConfig [] b = Inr b"
| "decode_BackendConfig ((k, v) # kvs) b =
     (case decode_field k v b of Inl e \<Rightarrow> Inl e | Inr b' \<Rightarrow> decode_BackendConfig kvs b')"

text \<open>Modelled from the spec: decoding the \<open>backends\<close> table into
  \<open>map[string]BackendConfig\<close> (the decoder is absent from the sources): each entry is a
  table, decoded into a fresh struct, the zero value, and stored under its name.\<close>

fun decode_Backends ::
  "(string \<times> toml) list \<Rightarrow> (string \<rightharpoonup> BackendConfig) \<Rightarrow>
   error + (string \<rightharpoonup> BackendConfig)" where
  "decode_Backends [] m = Inr m"
| "decode_Backends ((name, TTable kvs) # rest) m =
     (case decode_BackendConfig kvs BackendConfig_zero of
        Inl e \<Rightarrow> Inl e
      | Inr b \<Rightarrow> decode_Backends rest (m(name \<mapsto> b)))"
| "decode_Backends ((name, _) # rest) m = Inl type_mismatch"

text \<open>Modelled from the spec: decoding one top-level key into \<open>Config\<close> (the decoder is
  absent from the sources), on the tags \<open>backends\<close> and \<open>default_backend\<close> of lines 29
  and 33; any other key is ignored.\<close>

fun decode_top :: "string \<Rightarrow> toml \<Rightarrow> Config \<Rightarrow> error + Config" where
  "decode_top key v conf =
     (if key = ''backends'' then
        (case v of
           TTable bs \<Rightarrow>
             (case decode_Backends bs (Backends conf) of
                Inl e \<Rightarrow> Inl e
              | Inr m \<Rightarrow> Inr (conf\<lparr>Backends := m\<rparr>))
         | _ \<Rightarrow> Inl type_mismatch)
      else if key = ''default_backend'' then
        (case v of TString s \<Rightarrow> Inr (conf\<lparr>DefaultBackend := s\<rparr>) | _ \<Rightarrow> Inl type_mismatch)
      else Inr conf)"

text \<open>Modelled from the spec: \<open>toml.Decode\<close> of a parsed document into the struct
  \<open>conf\<close> (the decoder is absent from the sources). \<open>LoadConfig\<close> passes its
  zero-valued named result.\<close>

fun toml_Decode :: "(string \<times> toml) list \<Rightarrow> Config \<Rightarrow> error + Config" where
  "toml_Decode [] conf = Inr conf"
| "toml_Decode ((k, v) # kvs) conf =
     (case decode_top k v conf of Inl e \<Rightarrow> Inl e | Inr conf' \<Rightarrow> toml_Decode kvs conf')"

section \<open>The decoder as the library runs it\<close>











section \<open>Strings made of references and plain text\<close>

text \<open>
  The vocabulary for "a string with several references": a string written as a
  sequence of segments, each plain text, a \<open>$NAME\<close> or a \<open>${NAME}\<close>. \<open>render\<close> is the
  string, \<open>resolve\<close> what each segment stands for in an environment, and
  \<open>well_formed\<close> says that the segments read back as written: plain text holds no \<open>$\<close>,
  a \<open>$NAME\<close> is a non-empty name of letters, digits and underscores that does not begin
  with a digit and is not followed by one more such byte, a \<open>${NAME}\<close> holds a non-empty
  name without \<open>}\<close>.
\<close>

datatype segment = Plain string | Dollar string | Braced string

fun render :: "segment \<Rightarrow> string" where
  "render (Plain t) = t"
| "render (Dollar name) = CHR ''$'' # name"
| "render (Braced name) = ''${'' @ name @ ''}''"

fun resolve :: "(string \<rightharpoonup> string) \<Rightarrow> segment \<Rightarrow> string" where
  "resolve env (Plain t) = t"
| "resolve env (Dollar name) = Getenv env name"
| "resolve env (Braced name) = Getenv env name"

fun well_formed :: "segment list \<Rightarrow> bool" where
  "well_formed [] = True"
| "well_formed (Plain t # ps) = (CHR ''$'' \<notin> set t \<and> well_formed ps)"
| "well_formed (Dollar name # ps) =
     (name \<noteq> [] \<and> list_all isAlphaNum name \<and> \<not> isShellSpecialVar (hd name)
      \<and> (case concat (map render ps) of [] \<Rightarrow> True | c # _ \<Rightarrow> \<not> isAlphaNum c)
      \<and> well_formed ps)"
| "well_formed (Braced name # ps) =
     (name \<noteq> [] \<and> CHR ''}'' \<notin> set name \<and> well_formed ps)"

section \<open>Sample inputs\<close>

abbreviation sample_env :: "string \<rightharpoonup> string" where
  "sample_env \<equiv> [''FOO'' \<mapsto> ''bar'', ''MY_KEY'' \<mapsto> ''sk-123'']"

abbreviation sample_openai :: BackendConfig where
  "sample_openai \<equiv>
     \<lparr>Type = ''$FOO'', AWSProfile = [], AWSRegion = [], APIKey = ''$MY_KEY'',
      APIVersion = ''${FOO}'', URL = ''https://$FOO.example/v1'', DefaultModel = ''gpt'',
      ExtraHeaders = [''X-$FOO'' \<mapsto> ''${MY_KEY}'']\<rparr>"

abbreviation sample_bedrock :: BackendConfig where
  "sample_bedrock \<equiv>
     \<lparr>Type = ''bedrock'', AWSProfile = ''$FOO'', AWSRegion = ''us-$BAZ'', APIKey = [],
      APIVersion = [], URL = [], DefaultModel = [], ExtraHeaders = Map.empty\<rparr>"

abbreviation sample_conf :: Config where
  "sample_conf \<equiv>
     \<lparr>Backends = [''openai'' \<mapsto> sample_openai, ''bedrock'' \<mapsto> sample_bedrock],
      DefaultBackend = ''$FOO''\<rparr>"

text \<open>A platform with one configuration file, at \<open>/etc/aiac.toml\<close>, which decodes to
  \<open>sample_conf\<close>; any other path fails to open. \<open>order\<close> is the order its \<open>range\<close>
  takes.\<close>

abbreviation sample_platform :: "string list \<Rightarrow> platform" where
  "sample_platform order \<equiv>
     \<lparr>xdg_ConfigFile = (\<lambda>name. (''/home/u/.config/'' @ name, None)),
      toml_DecodeFile =
        (\<lambda>path conf.
           if path = ''/etc/aiac.toml'' then (sample_conf, None)
           else (conf, Some (Foreign ''no such file or directory''))),
      environ = sample_env,
      range_order = (\<lambda>m. order),
      os_Stat = (\<lambda>path. if path = ''/etc/aiac.toml'' then None
                        else Some (Foreign ''no such file or directory''))\<rparr>"

text \<open>A platform whose file \<open>aiac.toml\<close> holds the section \<open>[backends.openai]\<close> with
  \<open>type = "openai"\<close> and \<open>api_key = "$MY_KEY"\<close>, in an environment with
  \<open>MY_KEY=sk-123\<close>.\<close>

abbreviation openai_platform :: platform where
  "openai_platform \<equiv>
     \<lparr>xdg_ConfigFile = (\<lambda>name. (''/home/u/.config/'' @ name, None)),
      toml_DecodeFile =
        (\<lambda>path conf.
           if path = ''aiac.toml''
           then (conf\<lparr>Backends :=
                   [''openai'' \<mapsto> BackendConfig_zero\<lparr>Type := ''openai'', APIKey := ''$MY_KEY''\<rparr>]\<rparr>,
                 None)
           else (conf, Some (Foreign ''no such file or directory''))),
      environ = [''MY_KEY'' \<mapsto> ''sk-123''],
      range_order = (\<lambda>m. [''openai'']),
      os_Stat = (\<lambda>path. if path = ''aiac.toml'' then None
                        else Some (Foreign ''no such file or directory''))\<rparr>"

abbreviation sample_doc :: "(string \<times> toml) list" where
  "sample_doc \<equiv>
     [(''backends'',
        TTable [(''openai'',
                  TTable [(''type'', TString ''openai''), (''api_key'', TString ''$MY_KEY''),
                          (''colour'', TInteger 3)])]),
      (''verbose'', TBoolean True)]"



section \<open>Properties of the substitution pass\<close>

lemma replaceEnvVars_loop_other:
  "k \<notin> set ks \<Longrightarrow> replaceEnvVars_loop env ks m k = m k"
  by (induction ks arbitrary: m) (auto split: option.splits)

lemma dom_replaceEnvVars_loop: "dom (replaceEnvVars_loop env ks m) = dom m"
  by (induction ks arbitrary: m) (auto split: option.splits)

text \<open>A key visited once holds the body's result on the entry it held before the loop.\<close>

lemma replaceEnvVars_loop_visited:
  "distinct ks \<Longrightarrow> k \<in> set ks \<Longrightarrow>
   replaceEnvVars_loop env ks m k = map_option (replaceEnvVars_body env) (m k)"
proof (induction ks arbitrary: m)
  case Nil
  then show ?case by simp
next
  case (Cons a ks)
  show ?case
  proof (cases "a = k")
    case True
    with Cons.prems have "k \<notin> set ks" by simp
    then show ?thesis using True
      by (simp add: replaceEnvVars_loop_other split: option.splits)
  next
    case False
    with Cons.prems have "distinct ks" "k \<in> set ks" by auto
    then show ?thesis using False Cons.IH
      by (simp split: option.splits)
  qed
qed

lemma replaceEnvVars_loop_pointwise:
  assumes "distinct ks" and "set ks = dom m"
  shows "replaceEnvVars_loop env ks m k = map_option (replaceEnvVars_body env) (m k)"
proof (cases "k \<in> set ks")
  case True
  with assms(1) show ?thesis by (rule replaceEnvVars_loop_visited)
next
  case False
  with assms(2) have "m k = None" by auto
  with False show ?thesis by (simp add: replaceEnvVars_loop_other)
qed

lemma replaceEnvVars_body_fields:
  "replaceEnvVars_body env b =
     \<lparr>Type = Type b,
      AWSProfile = (if AWSProfile b \<noteq> [] then replaceEnvVar env (AWSProfile b) else []),
      AWSRegion = (if AWSRegion b \<noteq> [] then replaceEnvVar env (AWSRegion b) else []),
      APIKey = (if APIKey b \<noteq> [] then replaceEnvVar env (APIKey b) else []),
      APIVersion = (if APIVersion b \<noteq> [] then replaceEnvVar env (APIVersion b) else []),
      URL = (if URL b \<noteq> [] then replaceEnvVar env (URL b) else []),
      DefaultModel = (if DefaultModel b \<noteq> [] then replaceEnvVar env (DefaultModel b) else []),
      ExtraHeaders = ExtraHeaders b\<rparr>"
  by (simp add: replaceEnvVars_body_def Let_def)

lemma Expand_no_dollar: "CHR ''$'' \<notin> set s \<Longrightarrow> Expand mapping s = s"
  by (induction mapping s rule: Expand.induct) auto

text \<open>The facts that evaluate an expansion on a concrete string.\<close>

lemmas expand_eval =
  replaceEnvVar_def ExpandEnv_def Getenv_def getShellName_def isShellSpecialVar_def
  isAlphaNum_def

text \<open>
  Claim C1. For every visiting order the runtime may take, the substitution pass leaves
  under each backend name the profile it found there with exactly six fields replaced:
  \<open>APIKey\<close>, \<open>AWSProfile\<close>, \<open>AWSRegion\<close>, \<open>URL\<close>, \<open>DefaultModel\<close> and \<open>APIVersion\<close>
  each hold the substitution of their old value when that value was non-empty, and stay
  empty otherwise. \<open>Type\<close> and \<open>ExtraHeaders\<close> (keys and values) are the old ones,
  whatever they contain, and the profile has no other part.
\<close>

theorem replaceEnvVars_fields:
  assumes "distinct order" and "set order = dom (Backends conf)"
    and "Backends conf name = Some b"
  shows "Backends (replaceEnvVars env order conf) name =
     Some \<lparr>Type = Type b,
       AWSProfile = (if AWSProfile b \<noteq> [] then replaceEnvVar env (AWSProfile b) else []),
       AWSRegion = (if AWSRegion b \<noteq> [] then replaceEnvVar env (AWSRegion b) else []),
       APIKey = (if APIKey b \<noteq> [] then replaceEnvVar env (APIKey b) else []),
       APIVersion = (if APIVersion b \<noteq> [] then replaceEnvVar env (APIVersion b) else []),
       URL = (if URL b \<noteq> [] then replaceEnvVar env (URL b) else []),
       DefaultModel = (if DefaultModel b \<noteq> [] then replaceEnvVar env (DefaultModel b) else []),
       ExtraHeaders = ExtraHeaders b\<rparr>"
proof -
  have "Backends (replaceEnvVars env order conf) name =
        map_option (replaceEnvVars_body env) (Backends conf name)"
    using assms(1,2) by (simp add: replaceEnvVars_def replaceEnvVars_loop_pointwise)
  also have "\<dots> = Some (replaceEnvVars_body env b)"
    using assms(3) by simp
  finally show ?thesis
    by (simp only: replaceEnvVars_body_fields)
qed

theorem replaceEnvVars_fields_witness:
  "distinct [''bedrock'', ''openai'']
   \<and> set [''bedrock'', ''openai''] = dom (Backends sample_conf)
   \<and> Backends sample_conf ''openai'' = Some sample_openai
   \<and> Backends (replaceEnvVars sample_env [''bedrock'', ''openai''] sample_conf) ''openai'' =
       Some \<lparr>Type = ''$FOO'', AWSProfile = [], AWSRegion = [], APIKey = ''sk-123'',
         APIVersion = ''bar'', URL = ''https://bar.example/v1'', DefaultModel = ''gpt'',
         ExtraHeaders = [''X-$FOO'' \<mapsto> ''${MY_KEY}'']\<rparr>"
proof -
  have d: "distinct [''bedrock'', ''openai'']" by simp
  have s: "set [''bedrock'', ''openai''] = dom (Backends sample_conf)" by auto
  have b: "Backends sample_conf ''openai'' = Some sample_openai" by simp
  show ?thesis
    using d s b replaceEnvVars_fields [OF d s b, of sample_env]
    by (simp add: expand_eval)
qed

text \<open>
  Claim C8. The top-level \<open>DefaultBackend\<close> is the same string before and after the
  substitution pass, whatever it contains and whatever order the pass takes: the pass
  writes to entries of \<open>Backends\<close> only.
\<close>

theorem replaceEnvVars_DefaultBackend:
  "DefaultBackend (replaceEnvVars env order conf) = DefaultBackend conf"
  by (simp add: replaceEnvVars_def)

theorem replaceEnvVars_DefaultBackend_witness:
  "DefaultBackend (replaceEnvVars sample_env [''bedrock'', ''openai''] sample_conf) = ''$FOO''"
  using replaceEnvVars_DefaultBackend [of sample_env "[''bedrock'', ''openai'']" sample_conf]
  by simp

text \<open>
  Claim C9. The substitution pass preserves the key set of \<open>Backends\<close>: the backend
  names after the pass are those before it, and the profile stored under each name is
  the loop body's result on the profile that was under that same name.
\<close>

theorem replaceEnvVars_keys:
  assumes "distinct order" and "set order = dom (Backends conf)"
  shows "dom (Backends (replaceEnvVars env order conf)) = dom (Backends conf)
     \<and> (\<forall>name b. Backends conf name = Some b \<longrightarrow>
           Backends (replaceEnvVars env order conf) name = Some (replaceEnvVars_body env b))"
  using assms
  by (simp add: replaceEnvVars_def dom_replaceEnvVars_loop replaceEnvVars_loop_pointwise)

theorem replaceEnvVars_keys_witness:
  "distinct [''openai'', ''bedrock'']
   \<and> set [''openai'', ''bedrock''] = dom (Backends sample_conf)
   \<and> dom (Backends (replaceEnvVars sample_env [''openai'', ''bedrock''] sample_conf)) =
       {''openai'', ''bedrock''}
   \<and> Backends (replaceEnvVars sample_env [''openai'', ''bedrock''] sample_conf) ''bedrock'' =
       Some \<lparr>Type = ''bedrock'', AWSProfile = ''bar'', AWSRegion = ''us-'', APIKey = [],
         APIVersion = [], URL = [], DefaultModel = [], ExtraHeaders = Map.empty\<rparr>"
proof -
  have d: "distinct [''openai'', ''bedrock'']" by simp
  have s: "set [''openai'', ''bedrock''] = dom (Backends sample_conf)" by auto
  have "Backends sample_conf ''bedrock'' = Some sample_bedrock" by simp
  moreover note replaceEnvVars_keys [OF d s, of sample_env]
  ultimately have
    "Backends (replaceEnvVars sample_env [''openai'', ''bedrock''] sample_conf) ''bedrock'' =
       Some (replaceEnvVars_body sample_env sample_bedrock)"
    and "dom (Backends (replaceEnvVars sample_env [''openai'', ''bedrock''] sample_conf)) =
       dom (Backends sample_conf)"
    by blast+
  then show ?thesis using d s
    by (simp add: replaceEnvVars_body_fields expand_eval)
qed

section \<open>Properties of the expansion\<close>

text \<open>
  Claim C5. Substitution is a function of the string and the environment alone, defined
  on every string (the recursion of \<open>Expand\<close> terminates and no case is left out), and
  it returns unchanged, in every environment, a string that holds no \<open>$\<close>.
\<close>

theorem replaceEnvVar_plain:
  "CHR ''$'' \<notin> set s \<Longrightarrow> replaceEnvVar env s = s"
  by (simp add: replaceEnvVar_def ExpandEnv_def Expand_no_dollar)

theorem replaceEnvVar_plain_witness:
  "CHR ''$'' \<notin> set ''https://api.example/v1''
   \<and> replaceEnvVar sample_env ''https://api.example/v1'' = ''https://api.example/v1''"
proof -
  have h: "CHR ''$'' \<notin> set ''https://api.example/v1''" by simp
  from h replaceEnvVar_plain [OF h, of sample_env] show ?thesis by (rule conjI)
qed

text \<open>Plain text is copied up to the next reference.\<close>

lemma Expand_Plain: "CHR ''$'' \<notin> set t \<Longrightarrow> Expand f (t @ r) = t @ Expand f r"
proof (induction t)
  case Nil
  then show ?case by simp
next
  case (Cons c t)
  then show ?case by (cases "t @ r") auto
qed

lemma getShellName_braced:
  assumes "name \<noteq> []" and "CHR ''}'' \<notin> set name"
  shows "getShellName CHR ''{'' (name @ CHR ''}'' # r) = (name, length name + 2)"
proof -
  have tw: "takeWhile (\<lambda>x. x \<noteq> CHR ''}'') (name @ CHR ''}'' # r) = name"
    using assms(2) by (induction name) auto
  show ?thesis
  proof (cases "isShellSpecialVar ((name @ CHR ''}'' # r) ! 0)
                \<and> (name @ CHR ''}'' # r) ! 1 = CHR ''}''")
    case True
    obtain a rest where n: "name = a # rest" using assms(1) by (cases name) auto
    with True assms(2) have "rest = []" by (cases rest) auto
    with n True show ?thesis by (simp add: getShellName_def)
  next
    case False
    then show ?thesis using assms(1) tw by (auto simp add: getShellName_def Let_def)
  qed
qed

lemma Expand_Braced:
  assumes "name \<noteq> []" and "CHR ''}'' \<notin> set name"
  shows "Expand f (''${'' @ name @ ''}'' @ r) = f name @ Expand f r"
  using assms by (simp add: getShellName_braced)

lemma isAlphaNum_not_brace: "isAlphaNum c \<Longrightarrow> c \<noteq> CHR ''{''"
  by (auto simp add: isAlphaNum_def)

lemma getShellName_dollar:
  assumes "list_all isAlphaNum (c # cs)" and "\<not> isShellSpecialVar c"
    and "case r of [] \<Rightarrow> True | x # _ \<Rightarrow> \<not> isAlphaNum x"
  shows "getShellName c (cs @ r) = (c # cs, Suc (length cs))"
proof -
  have "takeWhile isAlphaNum (cs @ r) = cs"
    using assms(1,3) by (induction cs) (auto split: list.splits)
  then show ?thesis
    using assms(1,2) isAlphaNum_not_brace [of c] by (simp add: getShellName_def)
qed

lemma Expand_Dollar:
  assumes "name \<noteq> []" and "list_all isAlphaNum name" and "\<not> isShellSpecialVar (hd name)"
    and "case r of [] \<Rightarrow> True | x # _ \<Rightarrow> \<not> isAlphaNum x"
  shows "Expand f (CHR ''$'' # name @ r) = f name @ Expand f r"
proof -
  obtain c cs where n: "name = c # cs" using assms(1) by (cases name) auto
  with assms have "getShellName c (cs @ r) = (c # cs, Suc (length cs))"
    by (intro getShellName_dollar) auto
  with n show ?thesis by simp
qed

lemma Expand_segments:
  "well_formed ps \<Longrightarrow>
   Expand (Getenv env) (concat (map render ps)) = concat (map (resolve env) ps)"
proof (induction ps rule: well_formed.induct)
  case 1
  then show ?case by simp
next
  case (2 t ps)
  then show ?case by (simp add: Expand_Plain)
next
  case (3 name ps)
  then show ?case
    using Expand_Dollar [of name "concat (map render ps)" "Getenv env"] by simp
next
  case (4 name ps)
  then show ?case
    using Expand_Braced [of name "Getenv env" "concat (map render ps)"] by simp
qed

text \<open>
  Claim C4. In an environment where \<open>FOO\<close> is \<open>bar\<close> and \<open>BAZ\<close> is undefined, \<open>$FOO\<close>
  and \<open>${FOO}\<close> both become \<open>bar\<close> and \<open>$BAZ\<close> becomes the empty string; and in a string
  made of any number of references and stretches of plain text, every reference is
  replaced by the value of its variable and the plain text stays.
\<close>

theorem replaceEnvVar_references:
  assumes "env ''FOO'' = Some ''bar''" and "env ''BAZ'' = None"
  shows "replaceEnvVar env ''$FOO'' = ''bar''
     \<and> replaceEnvVar env ''${FOO}'' = ''bar''
     \<and> replaceEnvVar env ''$BAZ'' = []
     \<and> (\<forall>ps. well_formed ps \<longrightarrow>
           replaceEnvVar env (concat (map render ps)) = concat (map (resolve env) ps))"
proof (intro conjI allI impI)
  show "replaceEnvVar env ''$FOO'' = ''bar''"
    using assms(1) by (simp add: expand_eval)
  show "replaceEnvVar env ''${FOO}'' = ''bar''"
    using assms(1) by (simp add: expand_eval)
  show "replaceEnvVar env ''$BAZ'' = []"
    using assms(2) by (simp add: expand_eval)
  show "replaceEnvVar env (concat (map render ps)) = concat (map (resolve env) ps)"
    if "well_formed ps" for ps
    using that by (simp add: replaceEnvVar_def ExpandEnv_def Expand_segments)
qed

theorem replaceEnvVar_references_witness:
  "sample_env ''FOO'' = Some ''bar'' \<and> sample_env ''BAZ'' = None
   \<and> replaceEnvVar sample_env ''$FOO'' = ''bar''
   \<and> replaceEnvVar sample_env ''${FOO}'' = ''bar''
   \<and> replaceEnvVar sample_env ''$BAZ'' = []
   \<and> well_formed [Plain ''a'', Dollar ''FOO'', Plain ''-'', Braced ''FOO'', Dollar ''BAZ'',
        Plain ''/'', Braced ''MY_KEY'']
   \<and> replaceEnvVar sample_env ''a$FOO-${FOO}$BAZ/${MY_KEY}'' = ''abar-bar/sk-123''"
proof -
  let ?ps = "[Plain ''a'', Dollar ''FOO'', Plain ''-'', Braced ''FOO'', Dollar ''BAZ'',
    Plain ''/'', Braced ''MY_KEY'']"
  have f: "sample_env ''FOO'' = Some ''bar''" by simp
  have z: "sample_env ''BAZ'' = None" by simp
  have w: "well_formed ?ps" by (simp add: isAlphaNum_def isShellSpecialVar_def)
  note t = replaceEnvVar_references [OF f z]
  from t w have "replaceEnvVar sample_env (concat (map render ?ps)) =
      concat (map (resolve sample_env) ?ps)"
    by blast
  then have m: "replaceEnvVar sample_env ''a$FOO-${FOO}$BAZ/${MY_KEY}'' = ''abar-bar/sk-123''"
    by (simp add: Getenv_def)
  from t have "replaceEnvVar sample_env ''$FOO'' = ''bar''"
    and "replaceEnvVar sample_env ''${FOO}'' = ''bar''"
    and "replaceEnvVar sample_env ''$BAZ'' = []"
    by blast+
  with f z w m show ?thesis by blast
qed

section \<open>Properties of LoadConfig\<close>

text \<open>For a valid order the pass is the loop body applied to every entry.\<close>

lemma replaceEnvVars_pointwise:
  assumes "distinct order" and "set order = dom (Backends conf)"
  shows "replaceEnvVars env order conf =
     conf\<lparr>Backends := (\<lambda>name. map_option (replaceEnvVars_body env) (Backends conf name))\<rparr>"
proof -
  have "replaceEnvVars_loop env order (Backends conf) =
      (\<lambda>name. map_option (replaceEnvVars_body env) (Backends conf name))"
    using assms by (intro ext) (rule replaceEnvVars_loop_pointwise)
  then show ?thesis by (simp add: replaceEnvVars_def)
qed

lemma replaceEnvVars_body_fun:
  "replaceEnvVars_body env =
     (\<lambda>b. \<lparr>Type = Type b,
        AWSProfile = (if AWSProfile b \<noteq> [] then replaceEnvVar env (AWSProfile b) else []),
        AWSRegion = (if AWSRegion b \<noteq> [] then replaceEnvVar env (AWSRegion b) else []),
        APIKey = (if APIKey b \<noteq> [] then replaceEnvVar env (APIKey b) else []),
        APIVersion = (if APIVersion b \<noteq> [] then replaceEnvVar env (APIVersion b) else []),
        URL = (if URL b \<noteq> [] then replaceEnvVar env (URL b) else []),
        DefaultModel = (if DefaultModel b \<noteq> [] then replaceEnvVar env (DefaultModel b) else []),
        ExtraHeaders = ExtraHeaders b\<rparr>)"
  by (rule ext) (rule replaceEnvVars_body_fields)

text \<open>
  Claim C2. \<open>LoadConfig\<close> returns an error exactly when the default path cannot be
  resolved (which needs the explicit path to be empty) or the decoder fails on the
  resolved path. The first error is wrapped as "failed getting default config path", the
  second as "failed loading configuration", each around the collaborator's own error; so
  a default path at which the decoder fails (a missing file is such a failure) gives the
  second. In every other case there is no error and the result is the decoded
  configuration with the substitution done: \<open>DefaultBackend\<close> and the backend names as
  decoded, and every backend with its six fields substituted where non-empty and its
  \<open>Type\<close> and \<open>ExtraHeaders\<close> as decoded. There is no outcome in between.
\<close>

theorem LoadConfig_errors:
  "(snd (fst (LoadConfig pf path)) \<noteq> None \<longleftrightarrow>
      (path = [] \<and> snd (xdg_ConfigFile pf ''aiac/aiac.toml'') \<noteq> None)
      \<or> (\<exists>p. (if path = [] then xdg_ConfigFile pf ''aiac/aiac.toml'' = (p, None) else p = path)
             \<and> snd (toml_DecodeFile pf p Config_zero) \<noteq> None))
   \<and> (\<forall>p e. path = [] \<and> xdg_ConfigFile pf ''aiac/aiac.toml'' = (p, Some e) \<longrightarrow>
         fst (LoadConfig pf path) =
           (Config_zero, Some (Errorf ''failed getting default config path: %w'' e)))
   \<and> (\<forall>p c e. (if path = [] then xdg_ConfigFile pf ''aiac/aiac.toml'' = (p, None) else p = path)
           \<and> toml_DecodeFile pf p Config_zero = (c, Some e) \<longrightarrow>
         fst (LoadConfig pf path) = (c, Some (Errorf ''failed loading configuration: %w'' e)))
   \<and> (\<forall>p c. (if path = [] then xdg_ConfigFile pf ''aiac/aiac.toml'' = (p, None) else p = path)
           \<and> toml_DecodeFile pf p Config_zero = (c, None)
           \<and> valid_range_order pf (Backends c) \<longrightarrow>
         fst (LoadConfig pf path) =
           (c\<lparr>Backends := (\<lambda>name. map_option
                (\<lambda>b. \<lparr>Type = Type b,
                   AWSProfile =
                     (if AWSProfile b \<noteq> [] then replaceEnvVar (environ pf) (AWSProfile b) else []),
                   AWSRegion =
                     (if AWSRegion b \<noteq> [] then replaceEnvVar (environ pf) (AWSRegion b) else []),
                   APIKey =
                     (if APIKey b \<noteq> [] then replaceEnvVar (environ pf) (APIKey b) else []),
                   APIVersion =
                     (if APIVersion b \<noteq> [] then replaceEnvVar (environ pf) (APIVersion b) else []),
                   URL =
                     (if URL b \<noteq> [] then replaceEnvVar (environ pf) (URL b) else []),
                   DefaultModel =
                     (if DefaultModel b \<noteq> [] then replaceEnvVar (environ pf) (DefaultModel b)
                      else []),
                   ExtraHeaders = ExtraHeaders b\<rparr>)
                (Backends c name))\<rparr>,
            None))"
proof (intro conjI allI impI)
  show "(snd (fst (LoadConfig pf path)) \<noteq> None) =
      (path = [] \<and> snd (xdg_ConfigFile pf ''aiac/aiac.toml'') \<noteq> None
       \<or> (\<exists>p. (if path = [] then xdg_ConfigFile pf ''aiac/aiac.toml'' = (p, None) else p = path)
              \<and> snd (toml_DecodeFile pf p Config_zero) \<noteq> None))"
    by (auto simp add: LoadConfig_def LoadConfig_decode_def Let_def
        split: prod.splits option.splits if_splits)
next
  fix p e
  assume "path = [] \<and> xdg_ConfigFile pf ''aiac/aiac.toml'' = (p, Some e)"
  then show "fst (LoadConfig pf path) =
      (Config_zero, Some (Errorf ''failed getting default config path: %w'' e))"
    by (simp add: LoadConfig_def)
next
  fix p c e
  assume "(if path = [] then xdg_ConfigFile pf ''aiac/aiac.toml'' = (p, None) else p = path)
      \<and> toml_DecodeFile pf p Config_zero = (c, Some e)"
  then show "fst (LoadConfig pf path) =
      (c, Some (Errorf ''failed loading configuration: %w'' e))"
    by (auto simp add: LoadConfig_def LoadConfig_decode_def split: if_splits)
next
  fix p c
  assume h: "(if path = [] then xdg_ConfigFile pf ''aiac/aiac.toml'' = (p, None) else p = path)
      \<and> toml_DecodeFile pf p Config_zero = (c, None)
      \<and> valid_range_order pf (Backends c)"
  then have "fst (LoadConfig pf path) =
      (replaceEnvVars (environ pf) (range_order pf (Backends c)) c, None)"
    by (auto simp add: LoadConfig_def LoadConfig_decode_def split: if_splits)
  moreover from h have "replaceEnvVars (environ pf) (range_order pf (Backends c)) c =
      c\<lparr>Backends :=
          (\<lambda>name. map_option (replaceEnvVars_body (environ pf)) (Backends c name))\<rparr>"
    by (intro replaceEnvVars_pointwise) (simp_all add: valid_range_order_def)
  ultimately show "fst (LoadConfig pf path) =
           (c\<lparr>Backends := (\<lambda>name. map_option
                (\<lambda>b. \<lparr>Type = Type b,
                   AWSProfile =
                     (if AWSProfile b \<noteq> [] then replaceEnvVar (environ pf) (AWSProfile b) else []),
                   AWSRegion =
                     (if AWSRegion b \<noteq> [] then replaceEnvVar (environ pf) (AWSRegion b) else []),
                   APIKey =
                     (if APIKey b \<noteq> [] then replaceEnvVar (environ pf) (APIKey b) else []),
                   APIVersion =
                     (if APIVersion b \<noteq> [] then replaceEnvVar (environ pf) (APIVersion b) else []),
                   URL =
                     (if URL b \<noteq> [] then replaceEnvVar (environ pf) (URL b) else []),
                   DefaultModel =
                     (if DefaultModel b \<noteq> [] then replaceEnvVar (environ pf) (DefaultModel b)
                      else []),
                   ExtraHeaders = ExtraHeaders b\<rparr>)
                (Backends c name))\<rparr>,
            None)"
    by (simp only: replaceEnvVars_body_fun)
qed

theorem LoadConfig_errors_witness:
  "fst (LoadConfig (sample_platform []) []) =
     (Config_zero,
      Some (Errorf ''failed loading configuration: %w'' (Foreign ''no such file or directory'')))
   \<and> fst (LoadConfig
         ((sample_platform [])\<lparr>xdg_ConfigFile := \<lambda>name. ([], Some (Foreign ''no home directory''))\<rparr>)
         []) =
       (Config_zero,
        Some (Errorf ''failed getting default config path: %w'' (Foreign ''no home directory'')))
   \<and> valid_range_order (sample_platform [''openai'', ''bedrock'']) (Backends sample_conf)
   \<and> snd (fst (LoadConfig (sample_platform [''openai'', ''bedrock'']) ''/etc/aiac.toml'')) = None
   \<and> DefaultBackend
        (fst (fst (LoadConfig (sample_platform [''openai'', ''bedrock'']) ''/etc/aiac.toml''))) =
       ''$FOO''
   \<and> Backends
        (fst (fst (LoadConfig (sample_platform [''openai'', ''bedrock'']) ''/etc/aiac.toml'')))
        ''openai'' =
       Some \<lparr>Type = ''$FOO'', AWSProfile = [], AWSRegion = [], APIKey = ''sk-123'',
         APIVersion = ''bar'', URL = ''https://bar.example/v1'', DefaultModel = ''gpt'',
         ExtraHeaders = [''X-$FOO'' \<mapsto> ''${MY_KEY}'']\<rparr>
   \<and> Backends
        (fst (fst (LoadConfig (sample_platform [''openai'', ''bedrock'']) ''/etc/aiac.toml'')))
        ''bedrock'' =
       Some \<lparr>Type = ''bedrock'', AWSProfile = ''bar'', AWSRegion = ''us-'', APIKey = [],
         APIVersion = [], URL = [], DefaultModel = [], ExtraHeaders = Map.empty\<rparr>
   \<and> Backends
        (fst (fst (LoadConfig (sample_platform [''openai'', ''bedrock'']) ''/etc/aiac.toml'')))
        ''ollama'' = None"
proof -
  let ?pf = "sample_platform []"
  let ?pg = "sample_platform [''openai'', ''bedrock'']"
  let ?ph = "(sample_platform [])\<lparr>xdg_ConfigFile := \<lambda>name. ([], Some (Foreign ''no home directory''))\<rparr>"
  have h1: "(if [] = ([] :: string)
         then xdg_ConfigFile ?pf ''aiac/aiac.toml'' = (''/home/u/.config/aiac/aiac.toml'', None)
         else ''/home/u/.config/aiac/aiac.toml'' = [])
        \<and> toml_DecodeFile ?pf ''/home/u/.config/aiac/aiac.toml'' Config_zero =
            (Config_zero, Some (Foreign ''no such file or directory''))"
    by simp
  have a: "fst (LoadConfig ?pf []) =
     (Config_zero,
      Some (Errorf ''failed loading configuration: %w'' (Foreign ''no such file or directory'')))"
    by (rule LoadConfig_errors
        [THEN conjunct2, THEN conjunct2, THEN conjunct1, rule_format, OF h1])
  have h2: "[] = ([] :: string)
        \<and> xdg_ConfigFile ?ph ''aiac/aiac.toml'' = ([], Some (Foreign ''no home directory''))"
    by simp
  have b: "fst (LoadConfig ?ph []) =
     (Config_zero,
      Some (Errorf ''failed getting default config path: %w'' (Foreign ''no home directory'')))"
    by (rule LoadConfig_errors [THEN conjunct2, THEN conjunct1, rule_format, OF h2])
  have v: "valid_range_order ?pg (Backends sample_conf)"
    by (auto simp add: valid_range_order_def)
  have h3: "(if ''/etc/aiac.toml'' = []
         then xdg_ConfigFile ?pg ''aiac/aiac.toml'' = (''/etc/aiac.toml'', None)
         else ''/etc/aiac.toml'' = ''/etc/aiac.toml'')
        \<and> toml_DecodeFile ?pg ''/etc/aiac.toml'' Config_zero = (sample_conf, None)
        \<and> valid_range_order ?pg (Backends sample_conf)"
    using v by simp
  note c = LoadConfig_errors
    [THEN conjunct2, THEN conjunct2, THEN conjunct2, rule_format, OF h3]
  have c1: "snd (fst (LoadConfig ?pg ''/etc/aiac.toml'')) = None"
    by (simp only: c snd_conv)
  have c2: "DefaultBackend (fst (fst (LoadConfig ?pg ''/etc/aiac.toml''))) = ''$FOO''"
    by (simp only: c fst_conv) simp
  have c3: "Backends (fst (fst (LoadConfig ?pg ''/etc/aiac.toml''))) ''openai'' =
       Some \<lparr>Type = ''$FOO'', AWSProfile = [], AWSRegion = [], APIKey = ''sk-123'',
         APIVersion = ''bar'', URL = ''https://bar.example/v1'', DefaultModel = ''gpt'',
         ExtraHeaders = [''X-$FOO'' \<mapsto> ''${MY_KEY}'']\<rparr>"
    by (simp only: c fst_conv) (simp add: expand_eval)
  have c4: "Backends (fst (fst (LoadConfig ?pg ''/etc/aiac.toml''))) ''bedrock'' =
       Some \<lparr>Type = ''bedrock'', AWSProfile = ''bar'', AWSRegion = ''us-'', APIKey = [],
         APIVersion = [], URL = [], DefaultModel = [], ExtraHeaders = Map.empty\<rparr>"
    by (simp only: c fst_conv) (simp add: expand_eval)
  have c5: "Backends (fst (fst (LoadConfig ?pg ''/etc/aiac.toml''))) ''ollama'' = None"
    by (simp only: c fst_conv) simp
  from a b v c1 c2 c3 c4 c5 show ?thesis by (intro conjI)
qed

text \<open>
  Claim C3. Let \<open>p\<close> be the explicit path when it is non-empty, and otherwise the path
  the base-directory resolver returns for \<open>aiac/aiac.toml\<close>. Then the file decoded is
  the one at \<open>p\<close>: the result of \<open>LoadConfig\<close> is the decoder's error at \<open>p\<close>, wrapped, or
  the substitution pass on what the decoder returns at \<open>p\<close>; the decoder is the last
  collaborator called, on \<open>p\<close>, after the resolver when the explicit path is empty and
  after nothing otherwise; and the result stays the same when the platform is replaced
  by any other that agrees on the decoder's answer at \<open>p\<close> (and, for the empty path, on
  the resolver's answer for \<open>aiac/aiac.toml\<close>). So with a non-empty explicit path
  neither the resolver, nor the existence test, nor any other file has a say.
\<close>

theorem LoadConfig_path:
  assumes "if path = [] then xdg_ConfigFile pf ''aiac/aiac.toml'' = (p, None) else p = path"
  shows "(\<forall>c e. toml_DecodeFile pf p Config_zero = (c, Some e) \<longrightarrow>
            fst (LoadConfig pf path) =
              (c, Some (Errorf ''failed loading configuration: %w'' e)))
     \<and> (\<forall>c. toml_DecodeFile pf p Config_zero = (c, None) \<longrightarrow>
            fst (LoadConfig pf path) =
              (replaceEnvVars (environ pf) (range_order pf (Backends c)) c, None))
     \<and> snd (LoadConfig pf path) =
         (if path = [] then [Call_ConfigFile ''aiac/aiac.toml''] else []) @ [Call_DecodeFile p]
     \<and> (\<forall>resolver decoder stat.
           (path = [] \<longrightarrow> resolver ''aiac/aiac.toml'' = (p, None))
           \<and> decoder p Config_zero = toml_DecodeFile pf p Config_zero \<longrightarrow>
           LoadConfig
             (pf\<lparr>xdg_ConfigFile := resolver, toml_DecodeFile := decoder, os_Stat := stat\<rparr>) path =
           LoadConfig pf path)"
  using assms
  by (auto simp add: LoadConfig_def LoadConfig_decode_def Let_def
      split: prod.splits option.splits if_splits)

theorem LoadConfig_path_witness:
  "fst (LoadConfig (sample_platform []) ''/home/u/aiac.toml'') =
     (Config_zero,
      Some (Errorf ''failed loading configuration: %w'' (Foreign ''no such file or directory'')))
   \<and> snd (LoadConfig (sample_platform []) ''/home/u/aiac.toml'') =
       [Call_DecodeFile ''/home/u/aiac.toml'']
   \<and> LoadConfig
       ((sample_platform [])
          \<lparr>xdg_ConfigFile := \<lambda>name. ([], Some (Foreign ''no home directory'')),
           toml_DecodeFile := \<lambda>path conf.
             if path = ''/home/u/aiac.toml''
             then (conf, Some (Foreign ''no such file or directory''))
             else (sample_conf, None),
           os_Stat := \<lambda>path. None\<rparr>)
       ''/home/u/aiac.toml'' =
     LoadConfig (sample_platform []) ''/home/u/aiac.toml''
   \<and> snd (LoadConfig (sample_platform []) []) =
       [Call_ConfigFile ''aiac/aiac.toml'', Call_DecodeFile ''/home/u/.config/aiac/aiac.toml'']"
proof -
  let ?pf = "sample_platform []"
  let ?q = "''/home/u/aiac.toml''"
  let ?res = "\<lambda>name :: string. ([] :: string, Some (Foreign ''no home directory''))"
  let ?dec = "\<lambda>(path :: string) (conf :: Config).
             if path = ''/home/u/aiac.toml''
             then (conf, Some (Foreign ''no such file or directory''))
             else (sample_conf, None)"
  let ?stat = "\<lambda>path :: string. None :: error option"
  have r: "if ?q = [] then xdg_ConfigFile ?pf ''aiac/aiac.toml'' = (?q, None) else ?q = ?q"
    by simp
  note t = LoadConfig_path [OF r]
  have hd: "toml_DecodeFile ?pf ?q Config_zero =
      (Config_zero, Some (Foreign ''no such file or directory''))"
    by simp
  have a: "fst (LoadConfig ?pf ?q) =
     (Config_zero,
      Some (Errorf ''failed loading configuration: %w'' (Foreign ''no such file or directory'')))"
    by (rule t [THEN conjunct1, rule_format, OF hd])
  have b: "snd (LoadConfig ?pf ?q) = [Call_DecodeFile ?q]"
    using t [THEN conjunct2, THEN conjunct2, THEN conjunct1] by simp
  have hc: "(?q = [] \<longrightarrow> ?res ''aiac/aiac.toml'' = (?q, None))
      \<and> ?dec ?q Config_zero = toml_DecodeFile ?pf ?q Config_zero"
    by simp
  have c: "LoadConfig
       (?pf\<lparr>xdg_ConfigFile := ?res, toml_DecodeFile := ?dec, os_Stat := ?stat\<rparr>) ?q =
     LoadConfig ?pf ?q"
    by (rule t [THEN conjunct2, THEN conjunct2, THEN conjunct2,
          THEN spec [where x = "?res"], THEN spec [where x = "?dec"],
          THEN spec [where x = "?stat"], THEN mp, OF hc])
  have r0: "if [] = ([] :: string)
      then xdg_ConfigFile ?pf ''aiac/aiac.toml'' = (''/home/u/.config/aiac/aiac.toml'', None)
      else ''/home/u/.config/aiac/aiac.toml'' = []"
    by simp
  have d: "snd (LoadConfig ?pf []) =
      [Call_ConfigFile ''aiac/aiac.toml'', Call_DecodeFile ''/home/u/.config/aiac/aiac.toml'']"
    using LoadConfig_path [OF r0, THEN conjunct2, THEN conjunct2, THEN conjunct1] by simp
  from a b c d show ?thesis by (intro conjI)
qed

text \<open>
  Claim C6. When the file at an explicit path decodes to a configuration whose backend
  \<open>openai\<close> has type \<open>openai\<close> and API key \<open>$MY_KEY\<close>, and the environment binds
  \<open>MY_KEY\<close> to \<open>sk-123\<close>, \<open>LoadConfig\<close> succeeds and the backend \<open>openai\<close> of its result
  has the API key \<open>sk-123\<close>.
\<close>

theorem LoadConfig_openai_key:
  assumes "path \<noteq> []"
    and "toml_DecodeFile pf path Config_zero = (conf, None)"
    and "Backends conf ''openai'' = Some b" and "Type b = ''openai''" and "APIKey b = ''$MY_KEY''"
    and "environ pf ''MY_KEY'' = Some ''sk-123''"
    and "valid_range_order pf (Backends conf)"
  shows "\<exists>conf' b'. fst (LoadConfig pf path) = (conf', None)
           \<and> Backends conf' ''openai'' = Some b' \<and> APIKey b' = ''sk-123'' \<and> Type b' = ''openai''"
proof -
  let ?conf' = "replaceEnvVars (environ pf) (range_order pf (Backends conf)) conf"
  have l: "fst (LoadConfig pf path) = (?conf', None)"
    using assms(1,2) by (simp add: LoadConfig_def LoadConfig_decode_def)
  have "Backends ?conf' ''openai'' = Some (replaceEnvVars_body (environ pf) b)"
    using assms(3,7)
    by (simp add: valid_range_order_def replaceEnvVars_def replaceEnvVars_loop_pointwise)
  moreover have "replaceEnvVar (environ pf) ''$MY_KEY'' = ''sk-123''"
    using assms(6) by (simp add: expand_eval)
  ultimately show ?thesis using l assms(4,5)
    by (simp add: replaceEnvVars_body_fields)
qed

theorem LoadConfig_openai_key_witness:
  "\<exists>conf' b'. fst (LoadConfig openai_platform ''aiac.toml'') = (conf', None)
     \<and> Backends conf' ''openai'' = Some b' \<and> APIKey b' = ''sk-123'' \<and> Type b' = ''openai''"
proof (rule LoadConfig_openai_key)
  show "''aiac.toml'' \<noteq> []" by simp
  show "toml_DecodeFile openai_platform ''aiac.toml'' Config_zero =
      (\<lparr>Backends = [''openai'' \<mapsto> BackendConfig_zero\<lparr>Type := ''openai'', APIKey := ''$MY_KEY''\<rparr>],
        DefaultBackend = []\<rparr>, None)"
    by (simp add: Config_zero_def)
  show "Backends \<lparr>Backends = [''openai'' \<mapsto> BackendConfig_zero\<lparr>Type := ''openai'', APIKey := ''$MY_KEY''\<rparr>],
        DefaultBackend = []\<rparr> ''openai'' =
      Some (BackendConfig_zero\<lparr>Type := ''openai'', APIKey := ''$MY_KEY''\<rparr>)"
    by simp
  show "Type (BackendConfig_zero\<lparr>Type := ''openai'', APIKey := ''$MY_KEY''\<rparr>) = ''openai''"
    by simp
  show "APIKey (BackendConfig_zero\<lparr>Type := ''openai'', APIKey := ''$MY_KEY''\<rparr>) = ''$MY_KEY''"
    by simp
  show "environ openai_platform ''MY_KEY'' = Some ''sk-123''" by simp
  show "valid_range_order openai_platform
      (Backends \<lparr>Backends = [''openai'' \<mapsto> BackendConfig_zero\<lparr>Type := ''openai'', APIKey := ''$MY_KEY''\<rparr>],
        DefaultBackend = []\<rparr>)"
    by (simp add: valid_range_order_def)
qed





section \<open>Properties of the decoder's contract\<close>

lemma set_field_frame:
  "set_field g v b0 = Inr b \<Longrightarrow> f \<noteq> g \<Longrightarrow> same_field f b b0"
  by (cases "(g, v, b0)" rule: set_field.cases; cases f) (auto split: sum.splits)

lemma decode_field_frame:
  assumes "decode_field k v b0 = Inr b" and "toml_tag f \<noteq> k"
  shows "same_field f b b0"
proof (cases "find (\<lambda>f. toml_tag f = k) fields_of_BackendConfig")
  case None
  with assms(1) have "b = b0" by (simp add: decode_field_def)
  then show ?thesis by (cases f) simp_all
next
  case (Some g)
  then have "toml_tag g = k" by (auto simp add: find_Some_iff)
  with assms(2) have "f \<noteq> g" by auto
  moreover from Some assms(1) have "set_field g v b0 = Inr b" by (simp add: decode_field_def)
  ultimately show ?thesis by (rule set_field_frame [rotated])
qed

lemma same_field_trans: "same_field f a b \<Longrightarrow> same_field f b c \<Longrightarrow> same_field f a c"
  by (cases f) simp_all

text \<open>A field whose tag is no key of the table keeps the value the struct had.\<close>

lemma decode_BackendConfig_frame:
  "decode_BackendConfig kvs b0 = Inr b \<Longrightarrow> toml_tag f \<notin> fst ` set kvs \<Longrightarrow> same_field f b b0"
proof (induction kvs b0 rule: decode_BackendConfig.induct)
  case (1 b0)
  then show ?case by (cases f) simp_all
next
  case (2 k v kvs b0)
  from "2.prems"(1) obtain b1 where
    s: "decode_field k v b0 = Inr b1" and r: "decode_BackendConfig kvs b1 = Inr b"
    by (auto split: sum.splits)
  from "2.prems"(2) have "toml_tag f \<noteq> k" and "toml_tag f \<notin> fst ` set kvs" by auto
  with s r "2.IH" have "same_field f b b1" and "same_field f b1 b0"
    by (auto intro: decode_field_frame)
  then show ?case by (rule same_field_trans)
qed

text \<open>Every entry of the decoded map was in the map before or comes from a table of
  the document, decoded into the zero value.\<close>

lemma decode_Backends_origin:
  "decode_Backends bs m0 = Inr m \<Longrightarrow> m name = Some b \<Longrightarrow>
   m0 name = Some b
   \<or> (\<exists>kvs. (name, TTable kvs) \<in> set bs \<and> decode_BackendConfig kvs BackendConfig_zero = Inr b)"
proof (induction bs m0 rule: decode_Backends.induct)
  case (1 m0)
  then show ?case by simp
next
  case (2 n kvs rest m0)
  from "2.prems"(1) obtain b1 where
    d: "decode_BackendConfig kvs BackendConfig_zero = Inr b1"
    and r: "decode_Backends rest (m0(n \<mapsto> b1)) = Inr m"
    by (auto split: sum.splits)
  from "2.IH" [OF d r "2.prems"(2)] show ?case
  proof
    assume "(m0(n \<mapsto> b1)) name = Some b"
    with d show ?thesis by (cases "name = n") auto
  next
    assume "\<exists>kvs. (name, TTable kvs) \<in> set rest
              \<and> decode_BackendConfig kvs BackendConfig_zero = Inr b"
    then show ?thesis by auto
  qed
qed simp_all

lemma toml_Decode_DefaultBackend:
  "toml_Decode doc c0 = Inr c \<Longrightarrow> ''default_backend'' \<notin> fst ` set doc \<Longrightarrow>
   DefaultBackend c = DefaultBackend c0"
proof (induction doc c0 rule: toml_Decode.induct)
  case (1 c0)
  then show ?case by simp
next
  case (2 k v kvs c0)
  from "2.prems"(1) obtain c1 where
    s: "decode_top k v c0 = Inr c1" and r: "toml_Decode kvs c1 = Inr c"
    by (auto split: sum.splits)
  from "2.prems"(2) have "k \<noteq> ''default_backend''" and "''default_backend'' \<notin> fst ` set kvs"
    by auto
  with s r "2.IH" have "DefaultBackend c = DefaultBackend c1"
    and "DefaultBackend c1 = DefaultBackend c0"
    by (auto split: if_splits toml.splits sum.splits)
  then show ?case by simp
qed

lemma toml_Decode_Backends_absent:
  "toml_Decode doc c0 = Inr c \<Longrightarrow> ''backends'' \<notin> fst ` set doc \<Longrightarrow>
   Backends c = Backends c0"
proof (induction doc c0 rule: toml_Decode.induct)
  case (1 c0)
  then show ?case by simp
next
  case (2 k v kvs c0)
  from "2.prems"(1) obtain c1 where
    s: "decode_top k v c0 = Inr c1" and r: "toml_Decode kvs c1 = Inr c"
    by (auto split: sum.splits)
  from "2.prems"(2) have "k \<noteq> ''backends''" and "''backends'' \<notin> fst ` set kvs"
    by auto
  with s r "2.IH" have "Backends c = Backends c1" and "Backends c1 = Backends c0"
    by (auto split: if_splits toml.splits sum.splits)
  then show ?case by simp
qed

lemma toml_Decode_origin:
  "toml_Decode doc c0 = Inr c \<Longrightarrow> Backends c name = Some b \<Longrightarrow>
   Backends c0 name = Some b
   \<or> (\<exists>bs kvs. (''backends'', TTable bs) \<in> set doc \<and> (name, TTable kvs) \<in> set bs
         \<and> decode_BackendConfig kvs BackendConfig_zero = Inr b)"
proof (induction doc c0 rule: toml_Decode.induct)
  case (1 c0)
  then show ?case by simp
next
  case (2 k v kvs c0)
  from "2.prems"(1) obtain c1 where
    s: "decode_top k v c0 = Inr c1" and r: "toml_Decode kvs c1 = Inr c"
    by (auto split: sum.splits)
  from "2.IH" [OF s r "2.prems"(2)] show ?case
  proof
    assume h: "Backends c1 name = Some b"
    show ?thesis
    proof (cases "k = ''backends''")
      case True
      with s obtain bs m where v: "v = TTable bs"
        and m: "decode_Backends bs (Backends c0) = Inr m" and c1: "c1 = c0\<lparr>Backends := m\<rparr>"
        by (auto split: toml.splits sum.splits)
      from h c1 have "m name = Some b" by simp
      from decode_Backends_origin [OF m this] True v show ?thesis by auto
    next
      case False
      with s have "Backends c1 = Backends c0"
        by (auto split: if_splits toml.splits)
      with h show ?thesis by simp
    qed
  next
    assume "\<exists>bs kvs'. (''backends'', TTable bs) \<in> set kvs \<and> (name, TTable kvs') \<in> set bs
              \<and> decode_BackendConfig kvs' BackendConfig_zero = Inr b"
    then show ?thesis by auto
  qed
qed

text \<open>Whether a value decodes does not depend on the struct it is decoded into.\<close>

lemma decode_headers_ok: "isl (decode_headers kvs m) = isl (decode_headers kvs m')"
  by (induction kvs m arbitrary: m' rule: decode_headers.induct) auto

lemma isl_case_sum_Inr:
  "isl (case x of Inl e \<Rightarrow> Inl e | Inr m \<Rightarrow> Inr (g m)) = isl x"
  by (cases x) simp_all

lemma set_field_ok: "isl (set_field f v b) = isl (set_field f v b')"
  by (cases f; cases v)
    (simp_all add: isl_case_sum_Inr decode_headers_ok [of _ "ExtraHeaders b" "ExtraHeaders b'"])

lemma decode_field_ok: "isl (decode_field k v b) = isl (decode_field k v b')"
  by (simp add: decode_field_def set_field_ok [of _ v b b'] split: option.splits)

lemma decode_BackendConfig_ok:
  "isl (decode_BackendConfig kvs b) = isl (decode_BackendConfig kvs b')"
proof (induction kvs b arbitrary: b' rule: decode_BackendConfig.induct)
  case (1 b)
  then show ?case by simp
next
  case (2 k v kvs b)
  show ?case
  proof (cases "decode_field k v b")
    case (Inl e)
    with decode_field_ok [of k v b b'] show ?thesis by (auto simp add: isl_def)
  next
    case (Inr b1)
    with decode_field_ok [of k v b b'] obtain b1' where "decode_field k v b' = Inr b1'"
      by (cases "decode_field k v b'") auto
    with Inr "2.IH" [OF Inr, of b1'] show ?thesis by simp
  qed
qed

text \<open>A table that decodes still decodes with any of its keys left out.\<close>

lemma decode_BackendConfig_filter:
  "\<not> isl (decode_BackendConfig kvs b) \<Longrightarrow> \<not> isl (decode_BackendConfig (filter P kvs) b)"
proof (induction kvs b rule: decode_BackendConfig.induct)
  case (1 b)
  then show ?case by simp
next
  case (2 k v kvs b)
  from "2.prems" obtain b1 where s: "decode_field k v b = Inr b1"
    and r: "\<not> isl (decode_BackendConfig kvs b1)"
    by (auto split: sum.splits)
  from "2.IH" [OF s r] have f: "\<not> isl (decode_BackendConfig (filter P kvs) b1)" .
  show ?case
  proof (cases "P (k, v)")
    case True
    with s f show ?thesis by simp
  next
    case False
    with f decode_BackendConfig_ok [of "filter P kvs" b b1] show ?thesis by simp
  qed
qed

lemma decode_Backends_ok: "isl (decode_Backends bs m) = isl (decode_Backends bs m')"
proof (induction bs m arbitrary: m' rule: decode_Backends.induct)
  case (2 name kvs rest m)
  show ?case
  proof (cases "decode_BackendConfig kvs BackendConfig_zero")
    case (Inl e)
    then show ?thesis by simp
  next
    case (Inr b)
    from "2.IH" [OF Inr]
    have "isl (decode_Backends rest (m(name \<mapsto> b))) =
          isl (decode_Backends rest (m'(name \<mapsto> b)))" .
    with Inr show ?thesis by (simp only: decode_Backends.simps sum.case)
  qed
qed simp_all

lemma decode_top_ok: "isl (decode_top k v c) = isl (decode_top k v c')"
proof (cases v)
  case (TTable bs)
  then show ?thesis
    by (simp add: isl_case_sum_Inr decode_Backends_ok [of bs "Backends c" "Backends c'"])
qed simp_all

lemma toml_Decode_ok: "isl (toml_Decode doc c) = isl (toml_Decode doc c')"
proof (induction doc c arbitrary: c' rule: toml_Decode.induct)
  case (1 c)
  then show ?case by simp
next
  case (2 k v kvs c)
  show ?case
  proof (cases "decode_top k v c")
    case (Inl e)
    with decode_top_ok [of k v c c'] show ?thesis by (auto simp add: isl_def)
  next
    case (Inr c1)
    with decode_top_ok [of k v c c'] obtain c1' where "decode_top k v c' = Inr c1'"
      by (cases "decode_top k v c'") auto
    with Inr "2.IH" [OF Inr, of c1'] show ?thesis by simp
  qed
qed


lemma toml_Decode_filter:
  "\<not> isl (toml_Decode doc c) \<Longrightarrow> \<not> isl (toml_Decode (filter P doc) c)"
proof (induction doc c rule: toml_Decode.induct)
  case (1 c)
  then show ?case by simp
next
  case (2 k v kvs c)
  from "2.prems" obtain c1 where s: "decode_top k v c = Inr c1"
    and r: "\<not> isl (toml_Decode kvs c1)"
    by (auto split: sum.splits)
  from "2.IH" [OF s r] have f: "\<not> isl (toml_Decode (filter P kvs) c1)" .
  show ?case
  proof (cases "P (k, v)")
    case True
    with s f show ?thesis by simp
  next
    case False
    with f toml_Decode_ok [of "filter P kvs" c c1] show ?thesis by simp
  qed
qed


lemma decode_Backends_member:
  "\<not> isl (decode_Backends bs m) \<Longrightarrow> (name, TTable kvs) \<in> set bs \<Longrightarrow>
   \<not> isl (decode_BackendConfig kvs BackendConfig_zero)"
proof (induction bs m rule: decode_Backends.induct)
  case (2 n kvs' rest m)
  from "2.prems"(1) obtain b where d: "decode_BackendConfig kvs' BackendConfig_zero = Inr b"
    and r: "\<not> isl (decode_Backends rest (m(n \<mapsto> b)))"
    by (cases "decode_BackendConfig kvs' BackendConfig_zero") simp_all
  show ?case
  proof (cases "(name, TTable kvs) = (n, TTable kvs')")
    case True
    with d show ?thesis by simp
  next
    case False
    with "2.prems"(2) have "(name, TTable kvs) \<in> set rest" by auto
    with "2.IH" [OF d r] show ?thesis by simp
  qed
qed simp_all

lemma toml_Decode_member:
  "\<not> isl (toml_Decode doc c) \<Longrightarrow> (''backends'', TTable bs) \<in> set doc \<Longrightarrow>
   \<not> isl (decode_Backends bs Map.empty)"
proof (induction doc c rule: toml_Decode.induct)
  case (1 c)
  then show ?case by simp
next
  case (2 k v kvs c)
  from "2.prems"(1) obtain c1 where s: "decode_top k v c = Inr c1"
    and r: "\<not> isl (toml_Decode kvs c1)"
    by (auto split: sum.splits)
  show ?case
  proof (cases "(k, v) = (''backends'', TTable bs)")
    case True
    with s have "\<not> isl (decode_Backends bs (Backends c))"
      by (auto split: sum.splits)
    then show ?thesis using decode_Backends_ok [of bs "Backends c" Map.empty] by simp
  next
    case False
    with "2.prems"(2) have "(''backends'', TTable bs) \<in> set kvs" by auto
    with "2.IH" [OF s r] show ?thesis by simp
  qed
qed


text \<open>
  Claim C7. Whenever a document decodes into the zero-valued \<open>Config\<close>, every field
  whose key the document does not hold has its zero value: \<open>DefaultBackend\<close> is the
  empty string and \<open>Backends\<close> the empty map when their keys are absent, and each decoded
  backend comes from a table of the document and has the zero value (empty string, empty
  map for \<open>ExtraHeaders\<close>) in every field whose tag the table lacks. No field is
  required: the document still decodes with any of its top-level keys left out, and each
  backend's table still decodes with any of its keys left out.
\<close>

theorem toml_Decode_absent_fields:
  assumes "toml_Decode doc Config_zero = Inr conf"
  shows "(''default_backend'' \<notin> fst ` set doc \<longrightarrow> DefaultBackend conf = [])
    \<and> (''backends'' \<notin> fst ` set doc \<longrightarrow> Backends conf = Map.empty)
    \<and> (\<forall>name b. Backends conf name = Some b \<longrightarrow>
          (\<exists>bs kvs. (''backends'', TTable bs) \<in> set doc \<and> (name, TTable kvs) \<in> set bs
             \<and> decode_BackendConfig kvs BackendConfig_zero = Inr b
             \<and> (\<forall>f. toml_tag f \<notin> fst ` set kvs \<longrightarrow> same_field f b BackendConfig_zero)))
    \<and> (\<forall>P. \<exists>conf'. toml_Decode (filter P doc) Config_zero = Inr conf')
    \<and> (\<forall>bs name kvs P. (''backends'', TTable bs) \<in> set doc \<and> (name, TTable kvs) \<in> set bs \<longrightarrow>
          (\<exists>b'. decode_BackendConfig (filter P kvs) BackendConfig_zero = Inr b'))"
proof (intro conjI allI impI)
  assume "''default_backend'' \<notin> fst ` set doc"
  with toml_Decode_DefaultBackend [OF assms] show "DefaultBackend conf = []"
    by (simp add: Config_zero_def)
next
  assume "''backends'' \<notin> fst ` set doc"
  with toml_Decode_Backends_absent [OF assms] show "Backends conf = Map.empty"
    by (simp add: Config_zero_def)
next
  fix name b
  assume h: "Backends conf name = Some b"
  from toml_Decode_origin [OF assms h] obtain bs kvs where
    o: "(''backends'', TTable bs) \<in> set doc" "(name, TTable kvs) \<in> set bs"
       "decode_BackendConfig kvs BackendConfig_zero = Inr b"
    by (auto simp add: Config_zero_def)
  from o(3) have "\<forall>f. toml_tag f \<notin> fst ` set kvs \<longrightarrow> same_field f b BackendConfig_zero"
    by (auto intro: decode_BackendConfig_frame)
  with o show "\<exists>bs kvs. (''backends'', TTable bs) \<in> set doc \<and> (name, TTable kvs) \<in> set bs
      \<and> decode_BackendConfig kvs BackendConfig_zero = Inr b
      \<and> (\<forall>f. toml_tag f \<notin> fst ` set kvs \<longrightarrow> same_field f b BackendConfig_zero)"
    by blast
next
  fix P
  from assms have "\<not> isl (toml_Decode doc Config_zero)" by simp
  then have "\<not> isl (toml_Decode (filter P doc) Config_zero)" by (rule toml_Decode_filter)
  then show "\<exists>conf'. toml_Decode (filter P doc) Config_zero = Inr conf'"
    by (cases "toml_Decode (filter P doc) Config_zero") auto
next
  fix bs name kvs P
  assume m: "(''backends'', TTable bs) \<in> set doc \<and> (name, TTable kvs) \<in> set bs"
  then have m1: "(''backends'', TTable bs) \<in> set doc" and m2: "(name, TTable kvs) \<in> set bs"
    by simp_all
  from assms have "\<not> isl (toml_Decode doc Config_zero)" by simp
  from toml_Decode_member [OF this m1] have "\<not> isl (decode_Backends bs Map.empty)" .
  from decode_Backends_member [OF this m2]
  have "\<not> isl (decode_BackendConfig kvs BackendConfig_zero)" .
  then have "\<not> isl (decode_BackendConfig (filter P kvs) BackendConfig_zero)"
    by (rule decode_BackendConfig_filter)
  then show "\<exists>b'. decode_BackendConfig (filter P kvs) BackendConfig_zero = Inr b'"
    by (cases "decode_BackendConfig (filter P kvs) BackendConfig_zero") auto
qed


theorem toml_Decode_absent_fields_witness:
  "toml_Decode sample_doc Config_zero =
     Inr \<lparr>Backends = [''openai'' \<mapsto>
             \<lparr>Type = ''openai'', AWSProfile = [], AWSRegion = [], APIKey = ''$MY_KEY'',
              APIVersion = [], URL = [], DefaultModel = [], ExtraHeaders = Map.empty\<rparr>],
          DefaultBackend = []\<rparr>
   \<and> ''default_backend'' \<notin> fst ` set sample_doc
   \<and> (\<exists>conf'. toml_Decode (filter (\<lambda>kv. fst kv \<noteq> ''backends'') sample_doc) Config_zero =
          Inr conf')"
proof -
  let ?conf = "\<lparr>Backends = [''openai'' \<mapsto>
             \<lparr>Type = ''openai'', AWSProfile = [], AWSRegion = [], APIKey = ''$MY_KEY'',
              APIVersion = [], URL = [], DefaultModel = [], ExtraHeaders = Map.empty\<rparr>],
          DefaultBackend = []\<rparr>"
  have d: "toml_Decode sample_doc Config_zero = Inr ?conf"
    by (simp add: Config_zero_def BackendConfig_zero_def decode_field_def
        fields_of_BackendConfig_def)
  have a: "''default_backend'' \<notin> fst ` set sample_doc" by simp
  from toml_Decode_absent_fields [OF d]
  have "\<exists>conf'. toml_Decode (filter (\<lambda>kv. fst kv \<noteq> ''backends'') sample_doc) Config_zero =
          Inr conf'"
    by blast
  with d a show ?thesis by blast
qed

end
